theory Spec2Isabelle
  imports Complex_Main
begin

section \<open>JavaScript numbers\<close>

text \<open>
  A JavaScript number is a finite value, one of the two infinities, or NaN. The finite
  values are modelled as reals: rounding and overflow of the 64-bit format are left out,
  and so is the sign of zero (every divisor the code builds is a distance or a count,
  hence never negative zero). The special values are kept, because the code's
  comparisons and its \<^verbatim>\<open>isNaN\<close> guard depend on them.
\<close>

datatype jsnum = Fin real | PosInf | NegInf | NaN

fun isNaN :: "jsnum \<Rightarrow> bool" where
  "isNaN NaN = True"
| "isNaN _ = False"

fun isFinite :: "jsnum \<Rightarrow> bool" where
  "isFinite (Fin _) = True"
| "isFinite _ = False"

fun js_add :: "jsnum \<Rightarrow> jsnum \<Rightarrow> jsnum" where
  "js_add NaN _ = NaN"
| "js_add _ NaN = NaN"
| "js_add PosInf NegInf = NaN"
| "js_add NegInf PosInf = NaN"
| "js_add PosInf _ = PosInf"
| "js_add _ PosInf = PosInf"
| "js_add NegInf _ = NegInf"
| "js_add _ NegInf = NegInf"
| "js_add (Fin a) (Fin b) = Fin (a + b)"

fun js_neg :: "jsnum \<Rightarrow> jsnum" where
  "js_neg (Fin a) = Fin (- a)"
| "js_neg PosInf = NegInf"
| "js_neg NegInf = PosInf"
| "js_neg NaN = NaN"

text \<open>Division: a zero divisor gives NaN for 0/0 and an infinity otherwise.\<close>

fun js_div :: "jsnum \<Rightarrow> jsnum \<Rightarrow> jsnum" where
  "js_div NaN _ = NaN"
| "js_div _ NaN = NaN"
| "js_div (Fin a) (Fin b) =
     (if b \<noteq> 0 then Fin (a / b)
      else if a = 0 then NaN
      else if 0 < a then PosInf else NegInf)"
| "js_div (Fin a) _ = Fin 0"
| "js_div a (Fin b) = (if 0 \<le> b then a else js_neg a)"
| "js_div _ _ = NaN"

fun js_lt :: "jsnum \<Rightarrow> jsnum \<Rightarrow> bool" where
  "js_lt (Fin a) (Fin b) = (a < b)"
| "js_lt NegInf (Fin _) = True"
| "js_lt NegInf PosInf = True"
| "js_lt (Fin _) PosInf = True"
| "js_lt _ _ = False"

definition js_gt :: "jsnum \<Rightarrow> jsnum \<Rightarrow> bool" where
  "js_gt a b = js_lt b a"

text \<open>\<^verbatim>\<open>Math.max\<close> of two numbers: NaN if either is NaN.\<close>

definition js_max :: "jsnum \<Rightarrow> jsnum \<Rightarrow> jsnum" where
  "js_max a b = (if isNaN a \<or> isNaN b then NaN else if js_lt a b then b else a)"

text \<open>
  Reading an element of a typed array or of an array: an index past the end gives
  \<^verbatim>\<open>undefined\<close>, here \<open>None\<close>.
\<close>

definition js_index :: "'a list \<Rightarrow> nat \<Rightarrow> 'a option" where
  "js_index xs i = (if i < length xs then Some (xs ! i) else None)"

datatype error =
    TypeError
  | ModelNotLoaded
  | InvalidFaceTensorFormat
  | InvalidFaceData
  | InferenceTimeout
  | InferenceFailed
  | InvalidPredictionResults

section \<open>Action sequencer: \<^verbatim>\<open>useLivenessChecks\<close>\<close>

record landmark =
  x_coord :: real
  y_coord :: real

type_synonym landmarks = "landmark list"

datatype action = face_detection | blink | head_turn | smile | complete

record checks =
  blinkDetected :: bool
  headTurnDetected :: bool
  smileDetected :: bool
  currentAction :: action
  actionProgress :: nat
  actionStartTime :: "int option"
  blinkHistory :: "jsnum list"
  headPositionHistory :: "jsnum list"

text \<open>The values \<^verbatim>\<open>useState\<close> and \<^verbatim>\<open>useRef\<close> start with.\<close>

definition initial_checks :: checks where
  "initial_checks =
     \<lparr>blinkDetected = False, headTurnDetected = False, smileDetected = False,
      currentAction = face_detection, actionProgress = 0, actionStartTime = None,
      blinkHistory = [], headPositionHistory = []\<rparr>"

definition LEFT_EYE_TOP :: nat where "LEFT_EYE_TOP = 159"
definition LEFT_EYE_BOTTOM :: nat where "LEFT_EYE_BOTTOM = 145"
definition LEFT_EYE_LEFT :: nat where "LEFT_EYE_LEFT = 33"
definition LEFT_EYE_RIGHT :: nat where "LEFT_EYE_RIGHT = 133"
definition RIGHT_EYE_TOP :: nat where "RIGHT_EYE_TOP = 386"
definition RIGHT_EYE_BOTTOM :: nat where "RIGHT_EYE_BOTTOM = 374"
definition RIGHT_EYE_LEFT :: nat where "RIGHT_EYE_LEFT = 362"
definition RIGHT_EYE_RIGHT :: nat where "RIGHT_EYE_RIGHT = 263"
definition NOSE_TIP :: nat where "NOSE_TIP = 1"
definition LEFT_EAR :: nat where "LEFT_EAR = 234"
definition RIGHT_EAR :: nat where "RIGHT_EAR = 454"
definition MOUTH_LEFT :: nat where "MOUTH_LEFT = 61"
definition MOUTH_RIGHT :: nat where "MOUTH_RIGHT = 291"
definition MOUTH_TOP :: nat where "MOUTH_TOP = 13"
definition MOUTH_BOTTOM :: nat where "MOUTH_BOTTOM = 14"

text \<open>
  The distance the detectors take between two landmarks:
  \<^verbatim>\<open>Math.sqrt(Math.pow(p.x - q.x, 2) + Math.pow(p.y - q.y, 2))\<close>.
\<close>

definition distance :: "landmark \<Rightarrow> landmark \<Rightarrow> real" where
  "distance p q = sqrt ((x_coord p - x_coord q)\<^sup>2 + (y_coord p - y_coord q)\<^sup>2)"

text \<open>
  \<^verbatim>\<open>calculateEyeAspectRatio(landmarks, eyePoints)\<close> with
  \<^verbatim>\<open>eyePoints = [top, bottom, left, right]\<close>. Reading \<^verbatim>\<open>.x\<close> of a landmark
  the array does not have throws a TypeError. The second vertical distance is taken
  between \<^verbatim>\<open>eyePoints[0]\<close> and \<^verbatim>\<open>eyePoints[1]\<close> again.
\<close>

definition calculateEyeAspectRatio ::
  "landmarks \<Rightarrow> nat \<Rightarrow> nat \<Rightarrow> nat \<Rightarrow> nat \<Rightarrow> error + jsnum" where
  "calculateEyeAspectRatio lms topIdx bottomIdx leftIdx rightIdx =
     (case (js_index lms topIdx, js_index lms bottomIdx,
            js_index lms leftIdx, js_index lms rightIdx) of
        (Some eyeTop, Some eyeBottom, Some eyeLeft, Some eyeRight) \<Rightarrow>
          (let vertical1 = distance eyeTop eyeBottom;
               vertical2 = distance eyeTop eyeBottom;
               horizontal = distance eyeLeft eyeRight
           in Inr (js_div (Fin (vertical1 + vertical2)) (Fin (2 * horizontal))))
      | _ \<Rightarrow> Inl TypeError)"

text \<open>
  \<^verbatim>\<open>blinkHistoryRef.current.push(avgEAR)\<close>, then one \<^verbatim>\<open>shift()\<close> when the
  length has passed 10.
\<close>

definition pushBlinkHistory :: "jsnum list \<Rightarrow> jsnum \<Rightarrow> jsnum list" where
  "pushBlinkHistory history avgEAR =
     (let pushed = history @ [avgEAR]
      in if length pushed > 10 then tl pushed else pushed)"

text \<open>\<^verbatim>\<open>history.reduce((a, b) => a + b, 0) / history.length\<close>.\<close>

definition historyMean :: "jsnum list \<Rightarrow> jsnum" where
  "historyMean history =
     js_div (foldl js_add (Fin 0) history) (Fin (real (length history)))"

text \<open>
  \<^verbatim>\<open>detectBlink\<close>: the verdict and the history it leaves. Without landmarks it
  answers false and leaves the history alone.
\<close>

definition detectBlink :: "jsnum list \<Rightarrow> landmarks option \<Rightarrow> error + (bool \<times> jsnum list)" where
  "detectBlink history lmo =
     (case lmo of
        None \<Rightarrow> Inr (False, history)
      | Some lms \<Rightarrow>
          (case calculateEyeAspectRatio lms LEFT_EYE_TOP LEFT_EYE_BOTTOM LEFT_EYE_LEFT LEFT_EYE_RIGHT of
             Inl e \<Rightarrow> Inl e
           | Inr leftEAR \<Rightarrow>
               (case calculateEyeAspectRatio lms RIGHT_EYE_TOP RIGHT_EYE_BOTTOM RIGHT_EYE_LEFT RIGHT_EYE_RIGHT of
                  Inl e \<Rightarrow> Inl e
                | Inr rightEAR \<Rightarrow>
                    (let avgEAR = js_div (js_add leftEAR rightEAR) (Fin 2);
                         history' = pushBlinkHistory history avgEAR;
                         avgHistoryEAR = historyMean history';
                         blinkThreshold = Fin 0.25
                     in Inr (js_lt avgHistoryEAR blinkThreshold, history')))))"

definition detectHeadTurn :: "landmarks option \<Rightarrow> error + bool" where
  "detectHeadTurn lmo =
     (case lmo of
        None \<Rightarrow> Inr False
      | Some lms \<Rightarrow>
          (case (js_index lms NOSE_TIP, js_index lms LEFT_EAR, js_index lms RIGHT_EAR) of
             (Some nose, Some leftEar, Some rightEar) \<Rightarrow>
               (let leftDistance = distance nose leftEar;
                    rightDistance = distance nose rightEar;
                    ratio = js_div (Fin leftDistance) (Fin rightDistance);
                    turnThreshold = 1.3
                in Inr (js_gt ratio (Fin turnThreshold) \<or> js_lt ratio (Fin (1 / turnThreshold))))
           | _ \<Rightarrow> Inl TypeError))"

definition detectSmile :: "landmarks option \<Rightarrow> error + bool" where
  "detectSmile lmo =
     (case lmo of
        None \<Rightarrow> Inr False
      | Some lms \<Rightarrow>
          (case (js_index lms MOUTH_LEFT, js_index lms MOUTH_RIGHT,
                 js_index lms MOUTH_TOP, js_index lms MOUTH_BOTTOM) of
             (Some mouthLeft, Some mouthRight, Some mouthTop, Some mouthBottom) \<Rightarrow>
               (let mouthWidth = distance mouthLeft mouthRight;
                    mouthHeight = distance mouthTop mouthBottom;
                    smileRatio = js_div (Fin mouthWidth) (Fin mouthHeight)
                in Inr (js_gt smileRatio (Fin 2.5)))
           | _ \<Rightarrow> Inl TypeError))"

text \<open>
  \<^verbatim>\<open>checkLivenessAction(landmarks)\<close>, with the value of \<^verbatim>\<open>Date.now()\<close> passed in
  as \<open>currentTime\<close>. \<^verbatim>\<open>!actionStartTime\<close> holds for \<^verbatim>\<open>null\<close> and for 0. A
  TypeError thrown by a detector leaves the state as it was, since it is thrown before
  any setter runs and before the history is pushed.
\<close>

definition checkLivenessAction :: "checks \<Rightarrow> landmarks option \<Rightarrow> int \<Rightarrow> error + checks" where
  "checkLivenessAction st lmo currentTime =
     (case lmo of
        None \<Rightarrow> Inr st
      | Some lms \<Rightarrow>
          (if actionStartTime st = None \<or> actionStartTime st = Some 0
           then Inr (st\<lparr>actionStartTime := Some currentTime\<rparr>)
           else if currentTime - the (actionStartTime st) < 500 then Inr st
           else (case currentAction st of
                   face_detection \<Rightarrow>
                     Inr (st\<lparr>currentAction := blink, actionProgress := 25,
                              actionStartTime := Some currentTime\<rparr>)
                 | blink \<Rightarrow>
                     (case detectBlink (blinkHistory st) lmo of
                        Inl e \<Rightarrow> Inl e
                      | Inr (detected, history') \<Rightarrow>
                          (if detected
                           then Inr (st\<lparr>blinkHistory := history', blinkDetected := True,
                                         currentAction := head_turn, actionProgress := 50,
                                         actionStartTime := Some currentTime\<rparr>)
                           else Inr (st\<lparr>blinkHistory := history'\<rparr>)))
                 | head_turn \<Rightarrow>
                     (case detectHeadTurn lmo of
                        Inl e \<Rightarrow> Inl e
                      | Inr detected \<Rightarrow>
                          (if detected
                           then Inr (st\<lparr>headTurnDetected := True, currentAction := smile,
                                         actionProgress := 75,
                                         actionStartTime := Some currentTime\<rparr>)
                           else Inr st))
                 | smile \<Rightarrow>
                     (case detectSmile lmo of
                        Inl e \<Rightarrow> Inl e
                      | Inr detected \<Rightarrow>
                          (if detected
                           then Inr (st\<lparr>smileDetected := True, currentAction := complete,
                                         actionProgress := 100, actionStartTime := None\<rparr>)
                           else Inr st))
                 | complete \<Rightarrow> Inr st)))"

definition resetChecks :: "checks \<Rightarrow> checks" where
  "resetChecks st =
     st\<lparr>blinkDetected := False, headTurnDetected := False, smileDetected := False,
        currentAction := face_detection, actionProgress := 0, actionStartTime := None,
        blinkHistory := [], headPositionHistory := []\<rparr>"

text \<open>
  A session: the invocations of \<^verbatim>\<open>checkLivenessAction\<close> between two resets, each
  with the landmarks of its frame (or none) and its clock reading. An uncaught TypeError
  ends the run.
\<close>

fun runChecks :: "checks \<Rightarrow> (landmarks option \<times> int) list \<Rightarrow> error + checks" where
  "runChecks st [] = Inr st"
| "runChecks st ((lmo, currentTime) # rest) =
     (case checkLivenessAction st lmo currentTime of
        Inl e \<Rightarrow> Inl e
      | Inr st' \<Rightarrow> runChecks st' rest)"

text \<open>The place of a stage in the fixed order.\<close>

fun stageIndex :: "action \<Rightarrow> nat" where
  "stageIndex face_detection = 0"
| "stageIndex blink = 1"
| "stageIndex head_turn = 2"
| "stageIndex smile = 3"
| "stageIndex complete = 4"

section \<open>Passive and active liveness detection: \<^verbatim>\<open>useLivenessDetection\<close>\<close>

text \<open>
  The tensor library and the classifier are not part of the repository. They enter as
  a record of functions over an arbitrary type of tensors; \<open>None\<close> stands for a call
  that throws.
  \<^item> \<open>tensorRank\<close>: \<^verbatim>\<open>tensor.shape.length\<close>;
  \<^item> \<open>tensorData\<close>: the values \<^verbatim>\<open>tensor.data()\<close> yields;
  \<^item> \<open>laplacianVariance\<close>: the variance of the 3x3 Laplacian response of the
    channel mean (\<^verbatim>\<open>tf.mean\<close>, \<^verbatim>\<open>tf.conv2d\<close>, \<^verbatim>\<open>tf.moments\<close>), read back;
  \<^item> \<open>meanSquaredDifference\<close>: \<^verbatim>\<open>tf.mean(tf.squaredDifference(a, b))\<close>, read back;
  \<^item> \<open>magnitudeSpectrum\<close>: \<^verbatim>\<open>tf.abs(tf.spectral.fft2d(t))\<close>, as rows of columns
    of channel values;
  \<^item> \<open>predict\<close>: preprocessing, the model's \<^verbatim>\<open>predict\<close> raced against the
    5 second timer, and \<^verbatim>\<open>predictions.data()\<close>.
\<close>

datatype inference = Timeout | Failed | Predictions "jsnum list"

record 'crop tf =
  tensorRank :: "'crop \<Rightarrow> nat"
  tensorData :: "'crop \<Rightarrow> jsnum list"
  laplacianVariance :: "'crop \<Rightarrow> jsnum option"
  meanSquaredDifference :: "'crop \<Rightarrow> 'crop \<Rightarrow> jsnum option"
  magnitudeSpectrum :: "'crop \<Rightarrow> real list list list option"
  predict :: "'crop \<Rightarrow> inference"

record forensics =
  isSpoof :: bool
  confidence :: real
  reasons :: "string list"

record verdict =
  isLive :: bool
  resultConfidence :: jsnum
  passiveScore :: "real option"
  spoofReasons :: "string list"

record 'crop detector =
  modelPresent :: bool
  isModelLoaded :: bool
  faceHistory :: "'crop list"

text \<open>\<^verbatim>\<open>analyzeTexture\<close>: 1 when the variance read back exceeds 0.01.\<close>

definition analyzeTexture :: "'crop tf \<Rightarrow> 'crop option \<Rightarrow> real" where
  "analyzeTexture lib faceTensor =
     (case faceTensor of
        None \<Rightarrow> 0
      | Some t \<Rightarrow>
          (case laplacianVariance lib t of
             None \<Rightarrow> 0
           | Some textureScore \<Rightarrow> if js_gt textureScore (Fin 0.01) then 1 else 0))"

text \<open>
  The loop of \<^verbatim>\<open>analyzeMotion\<close>:
  \<^verbatim>\<open>for (let i = 0; i < Math.min(previousFaces.length, 3); i++)\<close>, carrying
  \<^verbatim>\<open>totalMotion\<close> and \<^verbatim>\<open>motionCount\<close>; \<open>None\<close> when a tensor operation throws.
\<close>

function motionLoop ::
  "'crop tf \<Rightarrow> 'crop \<Rightarrow> 'crop list \<Rightarrow> nat \<Rightarrow> jsnum \<Rightarrow> nat \<Rightarrow> (jsnum \<times> nat) option" where
  "motionLoop lib currentFace previousFaces i totalMotion motionCount =
     (if i < min (length previousFaces) 3
      then (case meanSquaredDifference lib currentFace (previousFaces ! i) of
              None \<Rightarrow> None
            | Some meanDiff \<Rightarrow>
                motionLoop lib currentFace previousFaces (i + 1)
                  (js_add totalMotion meanDiff) (motionCount + 1))
      else Some (totalMotion, motionCount))"
  by pat_completeness auto
termination
  by (relation "measure (\<lambda>(lib, currentFace, previousFaces, i, totalMotion, motionCount).
        min (length previousFaces) 3 - i)") auto

declare motionLoop.simps [simp del]

definition analyzeMotion :: "'crop tf \<Rightarrow> 'crop option \<Rightarrow> 'crop list \<Rightarrow> real" where
  "analyzeMotion lib currentFace previousFaces =
     (case currentFace of
        None \<Rightarrow> 0
      | Some c \<Rightarrow>
          (if length previousFaces < 3 then 0
           else (case motionLoop lib c previousFaces 0 (Fin 0) 0 of
                   None \<Rightarrow> 0
                 | Some (totalMotion, motionCount) \<Rightarrow>
                     (let avgMotion = js_div totalMotion (Fin (real motionCount))
                      in if js_gt avgMotion (Fin 0.001) then 1 else 0))))"

text \<open>
  \<^verbatim>\<open>tf.slice(magnitude, [0, 112, 0], [-1, 112, -1])\<close>: every row, the 112 columns
  from column 112 on, every channel. It throws when there are fewer than 224 columns.
\<close>

definition sliceHighFrequency :: "real list list list \<Rightarrow> real list list list option" where
  "sliceHighFrequency magnitude =
     (if list_all (\<lambda>row. 224 \<le> length row) magnitude
      then Some (map (\<lambda>row. take 112 (drop 112 row)) magnitude)
      else None)"

text \<open>\<^verbatim>\<open>tf.sum\<close> over all entries.\<close>

definition tensorSum :: "real list list list \<Rightarrow> real" where
  "tensorSum m = sum_list (map (\<lambda>row. sum_list (map sum_list row)) m)"

definition analyzeFrequencyDomain :: "'crop tf \<Rightarrow> 'crop option \<Rightarrow> real" where
  "analyzeFrequencyDomain lib faceTensor =
     (case faceTensor of
        None \<Rightarrow> 0
      | Some t \<Rightarrow>
          (case magnitudeSpectrum lib t of
             None \<Rightarrow> 0
           | Some magnitude \<Rightarrow>
               (case sliceHighFrequency magnitude of
                  None \<Rightarrow> 0
                | Some high \<Rightarrow>
                    (let highFreqEnergy = tensorSum high;
                         totalEnergy = tensorSum magnitude;
                         artifactRatio = js_div (Fin highFreqEnergy) (Fin totalEnergy)
                     in if js_lt artifactRatio (Fin 0.3) then 1 else 0))))"

definition detectSpoofing :: "'crop tf \<Rightarrow> 'crop option \<Rightarrow> 'crop list \<Rightarrow> forensics" where
  "detectSpoofing lib faceTensor history =
     (case faceTensor of
        None \<Rightarrow> \<lparr>isSpoof = True, confidence = 0, reasons = [''No face data'']\<rparr>
      | Some t \<Rightarrow>
          (let textureScore = analyzeTexture lib faceTensor;
               motionScore = analyzeMotion lib faceTensor history;
               frequencyScore = analyzeFrequencyDomain lib faceTensor;
               totalScore = (textureScore + motionScore + frequencyScore) / 3
           in \<lparr>isSpoof = totalScore < 0.5,
               confidence = totalScore,
               reasons =
                 (if textureScore < 0.5 then [''Low texture detail''] else []) @
                 (if motionScore < 0.5 then [''Insufficient motion''] else []) @
                 (if frequencyScore < 0.5 then [''Digital artifacts detected''] else [])\<rparr>))"

text \<open>
  \<^verbatim>\<open>getTensorStats\<close>: the scan stops at the first value that is NaN or not finite.
\<close>

record tensorStats =
  statsMin :: jsnum
  statsMax :: jsnum
  hasInvalidValues :: bool

definition js_min :: "jsnum \<Rightarrow> jsnum \<Rightarrow> jsnum" where
  "js_min a b = (if isNaN a \<or> isNaN b then NaN else if js_lt b a then b else a)"

fun tensorStatsLoop :: "jsnum list \<Rightarrow> jsnum \<Rightarrow> jsnum \<Rightarrow> tensorStats" where
  "tensorStatsLoop [] mn mx = \<lparr>statsMin = mn, statsMax = mx, hasInvalidValues = False\<rparr>"
| "tensorStatsLoop (val # rest) mn mx =
     (if isNaN val \<or> \<not> isFinite val
      then \<lparr>statsMin = mn, statsMax = mx, hasInvalidValues = True\<rparr>
      else tensorStatsLoop rest (js_min mn val) (js_max mx val))"

definition getTensorStats :: "'crop tf \<Rightarrow> 'crop \<Rightarrow> tensorStats" where
  "getTensorStats lib tensor = tensorStatsLoop (tensorData lib tensor) PosInf NegInf"

text \<open>
  The part of \<^verbatim>\<open>detectLiveness\<close> after the passive result is known: the early
  return on a passive spoof verdict, then the classifier's output and the combination.
  \<^verbatim>\<open>isNaN(undefined)\<close> is true, so a missing element fails the validation too.
  Every error thrown here is caught by \<^verbatim>\<open>detectLiveness\<close>, which then returns
  \<^verbatim>\<open>null\<close>.
\<close>

definition fuseResults :: "forensics \<Rightarrow> inference \<Rightarrow> error + verdict" where
  "fuseResults passiveResult outcome =
     (if isSpoof passiveResult
      then Inr \<lparr>isLive = False,
                resultConfidence = Fin (1 - confidence passiveResult),
                passiveScore = None,
                spoofReasons = reasons passiveResult\<rparr>
      else (case outcome of
              Timeout \<Rightarrow> Inl InferenceTimeout
            | Failed \<Rightarrow> Inl InferenceFailed
            | Predictions predictionData \<Rightarrow>
                (case (js_index predictionData 1, js_index predictionData 0) of
                   (Some liveProbability, Some spoofProbability) \<Rightarrow>
                     (if isNaN liveProbability \<or> isNaN spoofProbability
                      then Inl InvalidPredictionResults
                      else (let activeConfidence = js_max liveProbability spoofProbability;
                                combinedConfidence =
                                  js_div (js_add activeConfidence (Fin (confidence passiveResult)))
                                    (Fin 2)
                            in Inr \<lparr>isLive = (js_gt liveProbability spoofProbability
                                              \<and> \<not> isSpoof passiveResult),
                                     resultConfidence = combinedConfidence,
                                     passiveScore = Some (confidence passiveResult),
                                     spoofReasons =
                                       (if isSpoof passiveResult then reasons passiveResult
                                        else [])\<rparr>))
                 | _ \<Rightarrow> Inl InvalidPredictionResults)))"

text \<open>
  \<^verbatim>\<open>faceHistoryRef.current.push(clone)\<close>, then one \<^verbatim>\<open>shift()\<close> when more than
  five are kept.
\<close>

definition pushFaceHistory :: "'crop list \<Rightarrow> 'crop \<Rightarrow> 'crop list" where
  "pushFaceHistory history face =
     (let pushed = history @ [face]
      in if length pushed > 5 then tl pushed else pushed)"

text \<open>
  \<^verbatim>\<open>detectLiveness(faceImageTensor)\<close>: the result and the detector it leaves. The
  passive analysis gets \<^verbatim>\<open>faceHistoryRef.current.slice(0, -1)\<close>, the history
  without the face just pushed. The display state set along the way holds the same
  values as the result and is not kept here.
\<close>

definition detectLiveness ::
  "'crop tf \<Rightarrow> 'crop detector \<Rightarrow> 'crop option \<Rightarrow> (error + verdict) \<times> 'crop detector" where
  "detectLiveness lib st faceImageTensor =
     (if \<not> modelPresent st \<or> \<not> isModelLoaded st then (Inl ModelNotLoaded, st)
      else (case faceImageTensor of
              None \<Rightarrow> (Inl InvalidFaceTensorFormat, st)
            | Some t \<Rightarrow>
                (if tensorRank lib t \<noteq> 3 then (Inl InvalidFaceTensorFormat, st)
                 else if hasInvalidValues (getTensorStats lib t) then (Inl InvalidFaceData, st)
                 else (let st' = st\<lparr>faceHistory := pushFaceHistory (faceHistory st) t\<rparr>;
                           passiveResult =
                             detectSpoofing lib faceImageTensor (butlast (faceHistory st'))
                       in (fuseResults passiveResult (predict lib t), st')))))"

section \<open>Notions used to state the properties\<close>

text \<open>The progress shown is 25 times the place of the current stage.\<close>

definition progressMatchesStage :: "checks \<Rightarrow> bool" where
  "progressMatchesStage st = (actionProgress st = 25 * stageIndex (currentAction st))"

text \<open>
  The motion score as the specification words it: with at least three prior crops, the
  mean squared differences to the three most recent of them are averaged.
  \<open>previousFaces\<close> is in the order \<^verbatim>\<open>detectLiveness\<close> passes it, oldest first.
\<close>

definition analyzeMotion_spec :: "'crop tf \<Rightarrow> 'crop option \<Rightarrow> 'crop list \<Rightarrow> real" where
  "analyzeMotion_spec lib currentFace previousFaces =
     (case currentFace of
        None \<Rightarrow> 0
      | Some c \<Rightarrow>
          (if length previousFaces < 3 then 0
           else (let recent = take 3 (rev previousFaces);
                     diffs = map (meanSquaredDifference lib c) recent
                 in if list_ex (\<lambda>d. d = None) diffs then 0
                    else (let average = js_div (foldl js_add (Fin 0) (map the diffs))
                                          (Fin (real (length diffs)))
                          in if js_gt average (Fin 0.001) then 1 else 0))))"

text \<open>
  A small tensor library to run the definitions on: a crop is one pixel value, its
  Laplacian response is flat, the mean squared difference of two crops is the square of
  their difference, and the spectrum has all its energy in the first 112 columns.
\<close>

definition lowHighSpectrum :: "real list list list" where
  "lowHighSpectrum = [replicate 112 [1] @ replicate 112 [0]]"

definition scenario_lib :: "real tf" where
  "scenario_lib =
     \<lparr>tensorRank = (\<lambda>t. 3),
      tensorData = (\<lambda>t. [Fin t]),
      laplacianVariance = (\<lambda>t. Some (Fin 0)),
      meanSquaredDifference = (\<lambda>a b. Some (Fin ((a - b)\<^sup>2))),
      magnitudeSpectrum = (\<lambda>t. Some lowHighSpectrum),
      predict = (\<lambda>t. Predictions [Fin 0.1, Fin 0.85])\<rparr>"

definition loaded_detector :: "real detector" where
  "loaded_detector = \<lparr>modelPresent = True, isModelLoaded = True, faceHistory = []\<rparr>"

text \<open>
  The same library with a spectral transform that throws on every tensor, as a tensor
  library does that offers no \<^verbatim>\<open>tf.spectral.fft2d\<close>.
\<close>

definition throwing_lib :: "real tf" where
  "throwing_lib = scenario_lib\<lparr>magnitudeSpectrum := (\<lambda>t. None)\<rparr>"


text \<open>
  The mean of the retained entries as the specification words it, without the
  reduction the code runs: NaN when an entry is NaN or when both infinities occur, the
  infinity when one occurs, and otherwise the sum of the values over their number.
\<close>

fun finiteValue :: "jsnum \<Rightarrow> real" where
  "finiteValue (Fin a) = a"
| "finiteValue _ = 0"

definition retainedMean_spec :: "jsnum list \<Rightarrow> jsnum" where
  "retainedMean_spec entries =
     (if NaN \<in> set entries \<or> (PosInf \<in> set entries \<and> NegInf \<in> set entries) then NaN
      else if PosInf \<in> set entries then PosInf
      else if NegInf \<in> set entries then NegInf
      else Fin (sum_list (map finiteValue entries) / real (length entries)))"

text \<open>A full history: one old high entry, five low ones, four at 0.3.\<close>

definition full_history :: "real list" where
  "full_history = [0.9, 0.1, 0.1, 0.1, 0.1, 0.1, 0.3, 0.3, 0.3, 0.3]"

text \<open>
  The eye aspect ratio as the specification words it, on landmarks that are all there:
  the two vertical distances over twice the horizontal distance.
\<close>

definition eyeAspectRatio_spec :: "landmarks \<Rightarrow> nat \<Rightarrow> nat \<Rightarrow> nat \<Rightarrow> nat \<Rightarrow> jsnum" where
  "eyeAspectRatio_spec lms topIdx bottomIdx leftIdx rightIdx =
     js_div (Fin (distance (lms ! topIdx) (lms ! bottomIdx)
                  + distance (lms ! topIdx) (lms ! bottomIdx)))
            (Fin (2 * distance (lms ! leftIdx) (lms ! rightIdx)))"

text \<open>A face of 455 landmarks whose two eyes are 0.29 high and 1 wide.\<close>

definition origin :: landmark where
  "origin = \<lparr>x_coord = 0, y_coord = 0\<rparr>"

definition blinking_face :: landmarks where
  "blinking_face =
     (replicate 455 origin)
       [159 := \<lparr>x_coord = 0, y_coord = 0.29\<rparr>,
        133 := \<lparr>x_coord = 1, y_coord = 0\<rparr>,
        386 := \<lparr>x_coord = 0, y_coord = 0.29\<rparr>,
        263 := \<lparr>x_coord = 1, y_coord = 0\<rparr>]"

text \<open>
  Two states of a session: the dwell timer just started at time 1000, and the blink
  stage entered at time 1500.
\<close>

definition timed_checks :: checks where
  "timed_checks = initial_checks\<lparr>actionStartTime := Some 1000\<rparr>"

definition blink_checks :: checks where
  "blink_checks =
     initial_checks\<lparr>currentAction := blink, actionProgress := 25,
                    actionStartTime := Some 1500\<rparr>"

section \<open>Properties of the fusion and of the passive analyses\<close>

lemma js_max_Fin: "js_max (Fin a) (Fin b) = Fin (max a b)"
  by (simp add: js_max_def max_def)

lemma analyzeTexture_01: "analyzeTexture lib ft = 0 \<or> analyzeTexture lib ft = 1"
  by (simp add: analyzeTexture_def split: option.splits)

lemma analyzeMotion_01: "analyzeMotion lib ft h = 0 \<or> analyzeMotion lib ft h = 1"
  by (simp add: analyzeMotion_def Let_def split: option.splits prod.splits)

lemma analyzeFrequencyDomain_01:
  "analyzeFrequencyDomain lib ft = 0 \<or> analyzeFrequencyDomain lib ft = 1"
  by (simp add: analyzeFrequencyDomain_def Let_def split: option.splits)

lemma detectSpoofing_Some:
  "detectSpoofing lib (Some t) history =
     \<lparr>isSpoof = (analyzeTexture lib (Some t) + analyzeMotion lib (Some t) history
                   + analyzeFrequencyDomain lib (Some t)) / 3 < 0.5,
      confidence = (analyzeTexture lib (Some t) + analyzeMotion lib (Some t) history
                   + analyzeFrequencyDomain lib (Some t)) / 3,
      reasons =
        (if analyzeTexture lib (Some t) < 0.5 then [''Low texture detail''] else []) @
        (if analyzeMotion lib (Some t) history < 0.5 then [''Insufficient motion''] else []) @
        (if analyzeFrequencyDomain lib (Some t) < 0.5 then [''Digital artifacts detected'']
         else [])\<rparr>"
  by (simp add: detectSpoofing_def Let_def)

lemma motionLoop_step:
  "i < min (length prev) 3 \<Longrightarrow>
   motionLoop lib c prev i tm mc =
     (case meanSquaredDifference lib c (prev ! i) of
        None \<Rightarrow> None
      | Some d \<Rightarrow> motionLoop lib c prev (i + 1) (js_add tm d) (mc + 1))"
  by (subst motionLoop.simps) (simp del: min_less_iff_conj)

lemma motionLoop_stop:
  "\<not> i < min (length prev) 3 \<Longrightarrow> motionLoop lib c prev i tm mc = Some (tm, mc)"
  by (subst motionLoop.simps) (simp del: min_less_iff_conj)

lemma motionLoop_unroll:
  assumes "3 \<le> length prev"
  shows "motionLoop lib c prev 0 (Fin 0) 0 =
     (case (meanSquaredDifference lib c (prev ! 0), meanSquaredDifference lib c (prev ! 1),
            meanSquaredDifference lib c (prev ! 2)) of
        (Some d0, Some d1, Some d2) \<Rightarrow>
          Some (js_add (js_add (js_add (Fin 0) d0) d1) d2, 3)
      | _ \<Rightarrow> None)"
proof -
  have m: "min (length prev) 3 = 3" using assms by simp
  have s3: "motionLoop lib c prev 3 tm 3 = Some (tm, 3)" for tm
    by (rule motionLoop_stop) (simp add: m)
  have s2: "motionLoop lib c prev 2 tm 2 =
      (case meanSquaredDifference lib c (prev ! 2) of None \<Rightarrow> None
       | Some d \<Rightarrow> motionLoop lib c prev 3 (js_add tm d) 3)" for tm
    using motionLoop_step [of 2 prev lib c tm 2] by (simp add: m cong: option.case_cong)
  have s1: "motionLoop lib c prev 1 tm 1 =
      (case meanSquaredDifference lib c (prev ! 1) of None \<Rightarrow> None
       | Some d \<Rightarrow> motionLoop lib c prev 2 (js_add tm d) 2)" for tm
    using motionLoop_step [of 1 prev lib c tm 1]
    by (simp add: m numeral_2_eq_2 cong: option.case_cong)
  have s0: "motionLoop lib c prev 0 tm 0 =
      (case meanSquaredDifference lib c (prev ! 0) of None \<Rightarrow> None
       | Some d \<Rightarrow> motionLoop lib c prev 1 (js_add tm d) 1)" for tm
    using motionLoop_step [of 0 prev lib c tm 0] by (simp add: m cong: option.case_cong)
  show ?thesis
    unfolding s0 s1 s2 s3 by (simp split: option.splits)
qed

lemma tensorSum_lowHighSpectrum: "tensorSum lowHighSpectrum = 112"
  by (simp add: tensorSum_def lowHighSpectrum_def sum_list_replicate)

lemma sliceHighFrequency_lowHighSpectrum:
  "sliceHighFrequency lowHighSpectrum = Some [replicate 112 [0]]"
  by (simp add: sliceHighFrequency_def lowHighSpectrum_def)

lemma scenario_texture: "analyzeTexture scenario_lib (Some t) = 0"
  by (simp add: analyzeTexture_def scenario_lib_def js_gt_def)

lemma scenario_frequency: "analyzeFrequencyDomain scenario_lib (Some t) = 1"
  by (simp add: analyzeFrequencyDomain_def scenario_lib_def
        sliceHighFrequency_lowHighSpectrum tensorSum_lowHighSpectrum)
     (simp add: tensorSum_def sum_list_replicate)

lemma scenario_motion: "analyzeMotion scenario_lib (Some 1) [0, 0, 0] = 1"
  by (simp add: analyzeMotion_def motionLoop_unroll scenario_lib_def js_gt_def)

text \<open>
  C1. The fusion step of \<^verbatim>\<open>detectLiveness\<close>: on a passive spoof verdict it
  returns not live, with confidence \<open>1 - F.confidence\<close> and the passive reasons,
  whatever the classifier did (also when it timed out or failed); otherwise, on
  finite classifier outputs, the confidence is the mean of the larger probability and
  the passive confidence, and the result is live exactly when the live probability
  exceeds the spoof probability. A passive spoof verdict never gives a live result.
\<close>

theorem fusion_step:
  "(isSpoof F \<longrightarrow>
      fuseResults F outcome =
        Inr \<lparr>isLive = False, resultConfidence = Fin (1 - confidence F),
             passiveScore = None, spoofReasons = reasons F\<rparr>)
   \<and> (\<not> isSpoof F \<longrightarrow>
      fuseResults F (Predictions [Fin spoofProbability, Fin liveProbability]) =
        Inr \<lparr>isLive = (liveProbability > spoofProbability \<and> \<not> isSpoof F),
             resultConfidence =
               Fin ((max liveProbability spoofProbability + confidence F) / 2),
             passiveScore = Some (confidence F), spoofReasons = []\<rparr>)
   \<and> (isSpoof F \<longrightarrow> (\<forall>v. fuseResults F outcome = Inr v \<longrightarrow> \<not> isLive v))"
  by (simp add: fuseResults_def js_index_def js_max_Fin js_gt_def)

theorem fusion_step_witness:
  "fuseResults \<lparr>isSpoof = False, confidence = 0.9, reasons = []\<rparr>
       (Predictions [Fin 0.1, Fin 0.85])
     = Inr \<lparr>isLive = True, resultConfidence = Fin 0.875, passiveScore = Some 0.9,
            spoofReasons = []\<rparr>
   \<and> fuseResults \<lparr>isSpoof = True, confidence = 1 / 3,
                   reasons = [''Low texture detail'', ''Insufficient motion'']\<rparr> Timeout
     = Inr \<lparr>isLive = False, resultConfidence = Fin (2 / 3), passiveScore = None,
            spoofReasons = [''Low texture detail'', ''Insufficient motion'']\<rparr>"
  using fusion_step [of "\<lparr>isSpoof = False, confidence = 0.9, reasons = []\<rparr>" Timeout "0.1" "0.85"]
    fusion_step [of "\<lparr>isSpoof = True, confidence = 1 / 3,
                      reasons = [''Low texture detail'', ''Insufficient motion'']\<rparr>" Timeout 0 0]
  by simp

text \<open>
  C2. With a face tensor present, \<^verbatim>\<open>detectSpoofing\<close> returns as confidence the
  arithmetic mean of the texture, motion and frequency scores, each of which lies
  between 0 and 1; \<open>isSpoof\<close> holds exactly when that mean is below 0.5; and
  \<open>reasons\<close> holds, once each, exactly the tags of the scores below 0.5. For the scores
  0, 1, 1 the mean is 2/3 (0.667 to three places), \<open>isSpoof\<close> is false and the reasons
  are \<open>[''Low texture detail'']\<close>.
\<close>

theorem forensics_aggregate:
  fixes lib :: "'crop tf" and t :: 'crop and history :: "'crop list"
  defines "r \<equiv> detectSpoofing lib (Some t) history"
    and "textureScore \<equiv> analyzeTexture lib (Some t)"
    and "motionScore \<equiv> analyzeMotion lib (Some t) history"
    and "frequencyScore \<equiv> analyzeFrequencyDomain lib (Some t)"
  shows "confidence r = (textureScore + motionScore + frequencyScore) / 3
       \<and> 0 \<le> textureScore \<and> textureScore \<le> 1
       \<and> 0 \<le> motionScore \<and> motionScore \<le> 1
       \<and> 0 \<le> frequencyScore \<and> frequencyScore \<le> 1
       \<and> (isSpoof r \<longleftrightarrow> confidence r < 0.5)
       \<and> (''Low texture detail'' \<in> set (reasons r) \<longleftrightarrow> textureScore < 0.5)
       \<and> (''Insufficient motion'' \<in> set (reasons r) \<longleftrightarrow> motionScore < 0.5)
       \<and> (''Digital artifacts detected'' \<in> set (reasons r) \<longleftrightarrow> frequencyScore < 0.5)
       \<and> distinct (reasons r)
       \<and> set (reasons r) \<subseteq>
            {''Low texture detail'', ''Insufficient motion'', ''Digital artifacts detected''}
       \<and> (textureScore = 0 \<and> motionScore = 1 \<and> frequencyScore = 1 \<longrightarrow>
            confidence r = 2 / 3 \<and> \<bar>confidence r - 0.667\<bar> < 0.001 \<and> \<not> isSpoof r
            \<and> reasons r = [''Low texture detail''])"
proof -
  have t: "textureScore = 0 \<or> textureScore = 1"
    unfolding textureScore_def by (rule analyzeTexture_01)
  have m: "motionScore = 0 \<or> motionScore = 1"
    unfolding motionScore_def by (rule analyzeMotion_01)
  have f: "frequencyScore = 0 \<or> frequencyScore = 1"
    unfolding frequencyScore_def by (rule analyzeFrequencyDomain_01)
  have r: "r = \<lparr>isSpoof = (textureScore + motionScore + frequencyScore) / 3 < 0.5,
      confidence = (textureScore + motionScore + frequencyScore) / 3,
      reasons =
        (if textureScore < 0.5 then [''Low texture detail''] else []) @
        (if motionScore < 0.5 then [''Insufficient motion''] else []) @
        (if frequencyScore < 0.5 then [''Digital artifacts detected''] else [])\<rparr>"
    unfolding r_def textureScore_def motionScore_def frequencyScore_def
    by (rule detectSpoofing_Some)
  from t m f show ?thesis
    by (elim disjE) (simp_all add: r)
qed

theorem forensics_aggregate_witness:
  "analyzeTexture scenario_lib (Some 1) = 0
   \<and> analyzeMotion scenario_lib (Some 1) [0, 0, 0] = 1
   \<and> analyzeFrequencyDomain scenario_lib (Some 1) = 1
   \<and> confidence (detectSpoofing scenario_lib (Some 1) [0, 0, 0]) = 2 / 3
   \<and> \<not> isSpoof (detectSpoofing scenario_lib (Some 1) [0, 0, 0])
   \<and> reasons (detectSpoofing scenario_lib (Some 1) [0, 0, 0]) = [''Low texture detail'']"
  using forensics_aggregate [of scenario_lib 1 "[0, 0, 0]"]
  by (simp add: scenario_texture scenario_motion scenario_frequency)

text \<open>
  C5. Without a face tensor \<^verbatim>\<open>detectSpoofing\<close> returns exactly
  \<open>isSpoof = True\<close>, \<open>confidence = 0\<close> and the single reason \<open>''No face data''\<close>:
  it neither throws nor calls any analysis.
\<close>

theorem no_face_fails_closed:
  "detectSpoofing lib None history =
     \<lparr>isSpoof = True, confidence = 0, reasons = [''No face data'']\<rparr>"
  by (simp add: detectSpoofing_def)

theorem no_face_fails_closed_witness:
  "detectSpoofing scenario_lib None [0, 0, 0] =
     \<lparr>isSpoof = True, confidence = 0, reasons = [''No face data'']\<rparr>"
  using no_face_fails_closed [of scenario_lib "[0, 0, 0]"] .

text \<open>
  What the motion loop computes. With fewer than three prior crops the motion score is
  0. Otherwise the mean squared differences between the current crop and the first
  three prior crops of the list passed in are summed and divided by 3, and the score
  is 1 if that average exceeds 0.001 and 0 if not; it is 0 as well when a tensor
  operation throws. A fourth prior crop is not looked at.
\<close>

lemma motion_first_three_prior:
  "analyzeMotion lib (Some c) prev =
     (if length prev < 3 then 0
      else (case (meanSquaredDifference lib c (prev ! 0),
                  meanSquaredDifference lib c (prev ! 1),
                  meanSquaredDifference lib c (prev ! 2)) of
              (Some d0, Some d1, Some d2) \<Rightarrow>
                (if js_gt (js_div (js_add (js_add (js_add (Fin 0) d0) d1) d2) (Fin 3))
                      (Fin 0.001)
                 then 1 else 0)
            | _ \<Rightarrow> 0))"
proof (cases "length prev < 3")
  case True
  then show ?thesis by (simp add: analyzeMotion_def)
next
  case False
  then have l: "3 \<le> length prev" by simp
  show ?thesis
    by (cases "meanSquaredDifference lib c (prev ! 0)";
        cases "meanSquaredDifference lib c (prev ! 1)";
        cases "meanSquaredDifference lib c (prev ! 2)")
       (simp_all add: analyzeMotion_def motionLoop_unroll [OF l] False)
qed

text \<open>
  C7. The motion analysis is to compare the current crop with the three most recent
  prior crops, and the code's own comment says it compares with the recent frames.
  The history is kept oldest first, and the loop reads its first three entries. Once
  four prior crops are kept the newest of them is skipped: with the history
  \<open>[0, 0, 0, 1]\<close> and the current crop \<open>0\<close> the code compares with the three
  oldest crops, all equal to the current one, and scores 0, where the three most
  recent, which include the crop \<open>1\<close> and average a difference of 1/3, score 1.
\<close>

theorem motion_skips_newest_prior_crop:
  "butlast (pushFaceHistory [0, 0, 0, 1] (0 :: real)) = [0, 0, 0, 1]
   \<and> analyzeMotion scenario_lib (Some 0) (butlast (pushFaceHistory [0, 0, 0, 1] 0)) = 0
   \<and> analyzeMotion_spec scenario_lib (Some 0) (butlast (pushFaceHistory [0, 0, 0, 1] 0)) = 1"
  by (simp add: analyzeMotion_def motionLoop_unroll analyzeMotion_spec_def
        pushFaceHistory_def scenario_lib_def js_gt_def Let_def)

text \<open>
  C8. The frequency analysis is to take the 2-D Fourier transform of the crop and score
  1 when the share of the energy in the high-frequency half of the magnitude spectrum
  is below 0.3. The code asks the tensor library for \<^verbatim>\<open>tf.spectral.fft2d\<close>;
  where the library has no such function the call throws on every crop, the
  \<^verbatim>\<open>catch\<close> answers 0, and so the score is 0 whatever the crop's spectrum is:
  every passive result then carries the reason for digital artifacts and a confidence
  of at most 2/3. The second half of the claim holds: the throw is not propagated.
\<close>

theorem frequency_transform_throws:
  assumes "magnitudeSpectrum lib t = None"
  shows "analyzeFrequencyDomain lib (Some t) = 0
       \<and> ''Digital artifacts detected'' \<in> set (reasons (detectSpoofing lib (Some t) history))
       \<and> confidence (detectSpoofing lib (Some t) history) \<le> 2 / 3"
proof -
  have z: "analyzeFrequencyDomain lib (Some t) = 0"
    using assms by (simp add: analyzeFrequencyDomain_def)
  from analyzeTexture_01 [of lib "Some t"] analyzeMotion_01 [of lib "Some t" history]
  show ?thesis
    by (elim disjE) (simp_all add: detectSpoofing_Some z)
qed

theorem frequency_transform_throws_witness:
  "magnitudeSpectrum throwing_lib 1 = None
   \<and> analyzeFrequencyDomain throwing_lib (Some 1) = 0
   \<and> analyzeFrequencyDomain scenario_lib (Some 1) = 1
   \<and> ''Digital artifacts detected''
        \<in> set (reasons (detectSpoofing throwing_lib (Some 1) [0, 0, 0]))"
proof -
  have e: "magnitudeSpectrum throwing_lib 1 = None"
    by (simp add: throwing_lib_def)
  from frequency_transform_throws [OF e, of "[0, 0, 0]"] e scenario_frequency [of 1]
  show ?thesis by simp
qed




lemma fuse_short_circuit_only:
  assumes "fuseResults F outcome = Inr v" "passiveScore v = None"
  shows "isSpoof F \<and> resultConfidence v = Fin (1 - confidence F)"
proof (cases "isSpoof F")
  case True
  with assms show ?thesis by (auto simp: fuseResults_def)
next
  case False
  with assms show ?thesis
    by (cases outcome)
       (auto simp: fuseResults_def Let_def split: option.splits if_splits)
qed

lemma confidence_values:
  fixes a b c :: real
  assumes "a = 0 \<or> a = 1" "b = 0 \<or> b = 1" "c = 0 \<or> c = 1"
  shows "(a + b + c) / 3 \<in> {0, 1 / 3, 2 / 3, 1}
       \<and> ((a + b + c) / 3 < 0.5 \<longleftrightarrow> a + b + c \<le> 1)
       \<and> ((a + b + c) / 3 < 0.5 \<longrightarrow>
            1 - (a + b + c) / 3 = 2 / 3 \<or> 1 - (a + b + c) / 3 = 1)"
  using assms by (elim disjE) simp_all

lemma spoof_confidence:
  assumes "isSpoof (detectSpoofing lib ft history)"
  shows "1 - confidence (detectSpoofing lib ft history) = 2 / 3
       \<or> 1 - confidence (detectSpoofing lib ft history) = 1"
proof (cases ft)
  case None
  then show ?thesis by (simp add: detectSpoofing_def)
next
  case (Some t)
  from confidence_values [OF analyzeTexture_01 [of lib ft] analyzeMotion_01 [of lib ft history]
      analyzeFrequencyDomain_01 [of lib ft]] assms
  show ?thesis by (simp add: Some detectSpoofing_Some)
qed

text \<open>
  C10. Each of the three analyses returns exactly 0 or exactly 1, so the confidence
  \<^verbatim>\<open>detectSpoofing\<close> returns is one of 0, 1/3, 2/3 and 1, and \<open>isSpoof\<close> holds
  exactly when at most one analysis passes. Hence a result of \<^verbatim>\<open>detectLiveness\<close>
  that comes from the spoof short circuit (the one result without a passive score) is
  not live and reports the confidence 2/3 or 1.
\<close>

theorem forensics_scores_binary:
  fixes lib :: "'crop tf" and ft :: "'crop option" and history :: "'crop list"
  defines "r \<equiv> detectSpoofing lib ft history"
    and "textureScore \<equiv> analyzeTexture lib ft"
    and "motionScore \<equiv> analyzeMotion lib ft history"
    and "frequencyScore \<equiv> analyzeFrequencyDomain lib ft"
  shows "(textureScore = 0 \<or> textureScore = 1)
       \<and> (motionScore = 0 \<or> motionScore = 1)
       \<and> (frequencyScore = 0 \<or> frequencyScore = 1)
       \<and> confidence r \<in> {0, 1 / 3, 2 / 3, 1}
       \<and> (isSpoof r \<longleftrightarrow> textureScore + motionScore + frequencyScore \<le> 1)
       \<and> (isSpoof r \<longrightarrow> 1 - confidence r = 2 / 3 \<or> 1 - confidence r = 1)
       \<and> (\<forall>v st'. detectLiveness lib st ft = (Inr v, st') \<and> passiveScore v = None \<longrightarrow>
             \<not> isLive v \<and> (resultConfidence v = Fin (2 / 3) \<or> resultConfidence v = Fin 1))"
proof -
  have t: "textureScore = 0 \<or> textureScore = 1"
    unfolding textureScore_def by (rule analyzeTexture_01)
  have m: "motionScore = 0 \<or> motionScore = 1"
    unfolding motionScore_def by (rule analyzeMotion_01)
  have f: "frequencyScore = 0 \<or> frequencyScore = 1"
    unfolding frequencyScore_def by (rule analyzeFrequencyDomain_01)
  have cv: "confidence r \<in> {0, 1 / 3, 2 / 3, 1}
      \<and> (isSpoof r \<longleftrightarrow> textureScore + motionScore + frequencyScore \<le> 1)"
  proof (cases ft)
    case None
    then show ?thesis
      by (simp add: r_def textureScore_def motionScore_def frequencyScore_def
            detectSpoofing_def analyzeTexture_def analyzeMotion_def analyzeFrequencyDomain_def)
  next
    case (Some x)
    from confidence_values [OF t m f] show ?thesis
      unfolding r_def textureScore_def motionScore_def frequencyScore_def
      by (simp add: Some detectSpoofing_Some)
  qed
  have sc: "isSpoof r \<longrightarrow> 1 - confidence r = 2 / 3 \<or> 1 - confidence r = 1"
    unfolding r_def using spoof_confidence [of lib ft history] by blast
  have dl: "\<forall>v st'. detectLiveness lib st ft = (Inr v, st') \<and> passiveScore v = None \<longrightarrow>
             \<not> isLive v \<and> (resultConfidence v = Fin (2 / 3) \<or> resultConfidence v = Fin 1)"
  proof (intro allI impI)
    fix v st'
    assume a: "detectLiveness lib st ft = (Inr v, st') \<and> passiveScore v = None"
    then obtain F outcome where fo: "fuseResults F outcome = Inr v"
      and F: "\<exists>h. F = detectSpoofing lib ft h"
      by (auto simp: detectLiveness_def Let_def split: if_splits option.splits)
    from fuse_short_circuit_only [OF fo] a
    have s: "isSpoof F" and c: "resultConfidence v = Fin (1 - confidence F)" by auto
    from F obtain h where h: "F = detectSpoofing lib ft h" by blast
    from s fo have "\<not> isLive v" by (auto simp: fuseResults_def)
    moreover from spoof_confidence [of lib ft h] s c h
    have "resultConfidence v = Fin (2 / 3) \<or> resultConfidence v = Fin 1" by auto
    ultimately show "\<not> isLive v \<and> (resultConfidence v = Fin (2 / 3) \<or> resultConfidence v = Fin 1)"
      by blast
  qed
  from t m f cv sc dl show ?thesis by blast
qed

theorem forensics_scores_binary_witness:
  "detectLiveness scenario_lib loaded_detector (Some 1) =
     (Inr \<lparr>isLive = False, resultConfidence = Fin (2 / 3), passiveScore = None,
           spoofReasons = [''Low texture detail'', ''Insufficient motion'']\<rparr>,
      loaded_detector\<lparr>faceHistory := [1]\<rparr>)
   \<and> isSpoof (detectSpoofing scenario_lib (Some 1) [])
   \<and> confidence (detectSpoofing scenario_lib (Some 1) []) = 1 / 3"
proof -
  have p: "detectSpoofing scenario_lib (Some 1) [] =
      \<lparr>isSpoof = True, confidence = 1 / 3,
       reasons = [''Low texture detail'', ''Insufficient motion'']\<rparr>"
    by (simp add: detectSpoofing_Some scenario_texture scenario_frequency)
       (simp add: analyzeMotion_def)
  have s: "\<not> hasInvalidValues (getTensorStats scenario_lib 1)"
    by (simp add: getTensorStats_def scenario_lib_def)
  have r: "tensorRank scenario_lib 1 = 3"
    by (simp add: scenario_lib_def)
  have d: "detectLiveness scenario_lib loaded_detector (Some 1) =
     (Inr \<lparr>isLive = False, resultConfidence = Fin (2 / 3), passiveScore = None,
           spoofReasons = [''Low texture detail'', ''Insufficient motion'']\<rparr>,
      loaded_detector\<lparr>faceHistory := [1]\<rparr>)"
    by (simp add: detectLiveness_def loaded_detector_def pushFaceHistory_def Let_def p s r
          fuseResults_def)
  from forensics_scores_binary [of scenario_lib "Some 1" "[]" loaded_detector] d p
  show ?thesis by simp
qed

section \<open>Properties of the action sequencer\<close>

lemma check_None: "checkLivenessAction st None now = Inr st"
  by (simp add: checkLivenessAction_def)

lemma check_unset:
  "actionStartTime st = None \<or> actionStartTime st = Some 0 \<Longrightarrow>
   checkLivenessAction st (Some lms) now = Inr (st\<lparr>actionStartTime := Some now\<rparr>)"
  by (simp add: checkLivenessAction_def)

lemma check_early:
  "actionStartTime st = Some t \<Longrightarrow> t \<noteq> 0 \<Longrightarrow> now - t < 500 \<Longrightarrow>
   checkLivenessAction st (Some lms) now = Inr st"
  by (simp add: checkLivenessAction_def)

lemma check_due:
  "actionStartTime st = Some t \<Longrightarrow> t \<noteq> 0 \<Longrightarrow> \<not> now - t < 500 \<Longrightarrow>
   checkLivenessAction st (Some lms) now =
     (case currentAction st of
        face_detection \<Rightarrow>
          Inr (st\<lparr>currentAction := blink, actionProgress := 25, actionStartTime := Some now\<rparr>)
      | blink \<Rightarrow>
          (case detectBlink (blinkHistory st) (Some lms) of
             Inl e \<Rightarrow> Inl e
           | Inr (detected, history') \<Rightarrow>
               (if detected
                then Inr (st\<lparr>blinkHistory := history', blinkDetected := True,
                              currentAction := head_turn, actionProgress := 50,
                              actionStartTime := Some now\<rparr>)
                else Inr (st\<lparr>blinkHistory := history'\<rparr>)))
      | head_turn \<Rightarrow>
          (case detectHeadTurn (Some lms) of
             Inl e \<Rightarrow> Inl e
           | Inr detected \<Rightarrow>
               (if detected
                then Inr (st\<lparr>headTurnDetected := True, currentAction := smile,
                              actionProgress := 75, actionStartTime := Some now\<rparr>)
                else Inr st))
      | smile \<Rightarrow>
          (case detectSmile (Some lms) of
             Inl e \<Rightarrow> Inl e
           | Inr detected \<Rightarrow>
               (if detected
                then Inr (st\<lparr>smileDetected := True, currentAction := complete,
                              actionProgress := 100, actionStartTime := None\<rparr>)
                else Inr st))
      | complete \<Rightarrow> Inr st)"
  by (simp add: checkLivenessAction_def)

lemma check_due_cases:
  assumes "actionStartTime st = Some t" "t \<noteq> 0" "\<not> now - t < 500"
    and "checkLivenessAction st (Some lms) now = Inr st'"
  shows "(currentAction st' = currentAction st \<and> actionProgress st' = actionProgress st
           \<and> blinkDetected st' = blinkDetected st \<and> headTurnDetected st' = headTurnDetected st
           \<and> smileDetected st' = smileDetected st)
       \<or> (stageIndex (currentAction st') = Suc (stageIndex (currentAction st))
          \<and> actionProgress st' = 25 * stageIndex (currentAction st')
          \<and> (currentAction st' \<noteq> complete \<longrightarrow> actionStartTime st' = Some now))"
proof (cases "currentAction st")
  case face_detection
  with assms show ?thesis by (auto simp: check_due)
next
  case blink
  with assms show ?thesis
    by (cases "detectBlink (blinkHistory st) (Some lms)")
       (auto simp: check_due split: if_splits)
next
  case head_turn
  with assms show ?thesis
    by (cases "detectHeadTurn (Some lms)") (auto simp: check_due split: if_splits)
next
  case smile
  with assms show ?thesis
    by (cases "detectSmile (Some lms)") (auto simp: check_due split: if_splits)
next
  case complete
  with assms show ?thesis by (auto simp: check_due)
qed

lemma check_cases:
  assumes "checkLivenessAction st lmo now = Inr st'"
  shows "(currentAction st' = currentAction st \<and> actionProgress st' = actionProgress st
           \<and> blinkDetected st' = blinkDetected st \<and> headTurnDetected st' = headTurnDetected st
           \<and> smileDetected st' = smileDetected st)
       \<or> (stageIndex (currentAction st') = Suc (stageIndex (currentAction st))
          \<and> actionProgress st' = 25 * stageIndex (currentAction st')
          \<and> (currentAction st' \<noteq> complete \<longrightarrow> actionStartTime st' = Some now)
          \<and> (\<exists>t. actionStartTime st = Some t \<and> 500 \<le> now - t))"
proof (cases lmo)
  case None
  with assms show ?thesis by (simp add: check_None)
next
  case (Some lms)
  show ?thesis
  proof (cases "actionStartTime st = None \<or> actionStartTime st = Some 0")
    case True
    from assms check_unset [OF True, of lms now] show ?thesis by (auto simp: Some)
  next
    case False
    then obtain t where t: "actionStartTime st = Some t" "t \<noteq> 0" by auto
    show ?thesis
    proof (cases "now - t < 500")
      case True
      from assms check_early [OF t True, of lms] show ?thesis by (auto simp: Some)
    next
      case False
      from check_due_cases [OF t False assms [unfolded Some]] t False
      show ?thesis by auto
    qed
  qed
qed

lemma check_step:
  assumes "checkLivenessAction st lmo now = Inr st'"
  shows "(currentAction st' = currentAction st \<and> actionProgress st' = actionProgress st)
       \<or> (stageIndex (currentAction st') = Suc (stageIndex (currentAction st))
          \<and> actionProgress st' = 25 * stageIndex (currentAction st'))"
  using check_cases [OF assms] by blast

lemma check_inv:
  assumes "checkLivenessAction st lmo now = Inr st'" "progressMatchesStage st"
  shows "progressMatchesStage st'"
  using check_step [OF assms(1)] assms(2) by (auto simp: progressMatchesStage_def)

lemma run_inv:
  "runChecks st inputs = Inr st' \<Longrightarrow> progressMatchesStage st \<Longrightarrow> progressMatchesStage st'"
proof (induction inputs arbitrary: st)
  case Nil
  then show ?case by simp
next
  case (Cons a inputs)
  obtain lmo now where a: "a = (lmo, now)" by (cases a)
  from Cons.prems(1) obtain mid where
    m: "checkLivenessAction st lmo now = Inr mid" and r: "runChecks mid inputs = Inr st'"
    by (auto simp: a split: sum.splits)
  show ?case using Cons.IH [OF r check_inv [OF m Cons.prems(2)]] .
qed

lemma run_mono:
  "runChecks st inputs = Inr st' \<Longrightarrow> stageIndex (currentAction st) \<le> stageIndex (currentAction st')"
proof (induction inputs arbitrary: st)
  case Nil
  then show ?case by simp
next
  case (Cons a inputs)
  obtain lmo now where a: "a = (lmo, now)" by (cases a)
  from Cons.prems(1) obtain mid where
    m: "checkLivenessAction st lmo now = Inr mid" and r: "runChecks mid inputs = Inr st'"
    by (auto simp: a split: sum.splits)
  have "stageIndex (currentAction st) \<le> stageIndex (currentAction mid)"
    using check_step [OF m] by auto
  with Cons.IH [OF r] show ?case by simp
qed

lemma stage_progress_values:
  "progressMatchesStage st \<Longrightarrow> actionProgress st \<in> {0, 25, 50, 75, 100}"
  by (cases "currentAction st") (simp_all add: progressMatchesStage_def)

lemma check_hold:
  assumes "actionStartTime st = Some t0" "now - t0 < 500"
  shows "checkLivenessAction st lmo now = Inr st
       \<or> checkLivenessAction st lmo now = Inr (st\<lparr>actionStartTime := Some now\<rparr>)"
proof (cases lmo)
  case None
  then show ?thesis by (simp add: check_None)
next
  case (Some lms)
  show ?thesis
  proof (cases "t0 = 0")
    case True
    with assms check_unset [of st lms now] show ?thesis by (simp add: Some)
  next
    case False
    from check_early [OF assms(1) False assms(2), of lms] show ?thesis by (simp add: Some)
  qed
qed

lemma calculateEyeAspectRatio_in_range:
  assumes "ti < length lms" "bi < length lms" "li < length lms" "ri < length lms"
  shows "calculateEyeAspectRatio lms ti bi li ri = Inr (eyeAspectRatio_spec lms ti bi li ri)"
  using assms by (simp add: calculateEyeAspectRatio_def js_index_def eyeAspectRatio_spec_def)

lemma pushBlinkHistory_eq:
  "pushBlinkHistory history v =
     (if length history < 10 then history @ [v] else tl (history @ [v]))"
  by (auto simp: pushBlinkHistory_def Let_def)

lemma pushBlinkHistory_length:
  "length history \<le> 10 \<Longrightarrow> length (pushBlinkHistory history v) \<le> 10"
  by (simp add: pushBlinkHistory_eq)

lemma detectBlink_history:
  assumes "detectBlink history lmo = Inr (detected, history')"
  shows "history' = history \<or> (\<exists>v. history' = pushBlinkHistory history v)"
proof (cases lmo)
  case None
  with assms show ?thesis by (simp add: detectBlink_def)
next
  case (Some lms)
  show ?thesis
  proof (cases "calculateEyeAspectRatio lms LEFT_EYE_TOP LEFT_EYE_BOTTOM LEFT_EYE_LEFT LEFT_EYE_RIGHT")
    case (Inl e)
    with assms Some show ?thesis by (simp add: detectBlink_def)
  next
    case l: (Inr leftEAR)
    show ?thesis
    proof (cases "calculateEyeAspectRatio lms RIGHT_EYE_TOP RIGHT_EYE_BOTTOM RIGHT_EYE_LEFT RIGHT_EYE_RIGHT")
      case (Inl e)
      with assms Some l show ?thesis by (simp add: detectBlink_def)
    next
      case (Inr rightEAR)
      with assms Some l show ?thesis by (auto simp: detectBlink_def Let_def)
    qed
  qed
qed

lemma distance_vertical:
  "x_coord p = x_coord q \<Longrightarrow> distance p q = \<bar>y_coord p - y_coord q\<bar>"
  by (simp add: distance_def)

lemma distance_horizontal:
  "y_coord p = y_coord q \<Longrightarrow> distance p q = \<bar>x_coord p - x_coord q\<bar>"
  by (simp add: distance_def)

lemma blinking_face_length: "length blinking_face = 455"
  by (simp add: blinking_face_def)

lemma blinking_left: "eyeAspectRatio_spec blinking_face 159 145 33 133 = Fin 0.29"
  by (simp add: eyeAspectRatio_spec_def blinking_face_def origin_def distance_vertical distance_horizontal)

lemma blinking_right: "eyeAspectRatio_spec blinking_face 386 374 362 263 = Fin 0.29"
  by (simp add: eyeAspectRatio_spec_def blinking_face_def origin_def distance_vertical distance_horizontal)

lemma check_history:
  assumes "checkLivenessAction st lmo now = Inr st'"
  shows "blinkHistory st' = blinkHistory st
       \<or> (\<exists>v. blinkHistory st' = pushBlinkHistory (blinkHistory st) v)"
proof (cases lmo)
  case None
  with assms show ?thesis by (simp add: check_None)
next
  case (Some lms)
  show ?thesis
  proof (cases "actionStartTime st = None \<or> actionStartTime st = Some 0")
    case True
    from assms check_unset [OF True, of lms now] show ?thesis by (auto simp: Some)
  next
    case False
    then obtain t where t: "actionStartTime st = Some t" "t \<noteq> 0" by auto
    show ?thesis
    proof (cases "now - t < 500")
      case True
      from assms check_early [OF t True, of lms] show ?thesis by (auto simp: Some)
    next
      case late: False
      note due = check_due [OF t late, of lms]
      show ?thesis
      proof (cases "currentAction st")
        case face_detection
        with assms due show ?thesis by (auto simp: Some)
      next
        case blink
        show ?thesis
        proof (cases "detectBlink (blinkHistory st) (Some lms)")
          case (Inl e)
          with assms due blink show ?thesis by (simp add: Some)
        next
          case (Inr res)
          obtain detected history' where res: "res = (detected, history')" by (cases res)
          from detectBlink_history [OF Inr [unfolded res]]
          have h: "history' = blinkHistory st
                 \<or> (\<exists>v. history' = pushBlinkHistory (blinkHistory st) v)" .
          from assms due blink Inr res have "blinkHistory st' = history'"
            by (auto simp: Some split: if_splits)
          with h show ?thesis by simp
        qed
      next
        case head_turn
        with assms due show ?thesis
          by (cases "detectHeadTurn (Some lms)") (auto simp: Some split: if_splits)
      next
        case smile
        with assms due show ?thesis
          by (cases "detectSmile (Some lms)") (auto simp: Some split: if_splits)
      next
        case complete
        with assms due show ?thesis by (auto simp: Some)
      qed
    qed
  qed
qed

lemma check_history_bound:
  assumes "checkLivenessAction st lmo now = Inr st'" "length (blinkHistory st) \<le> 10"
  shows "length (blinkHistory st') \<le> 10"
  using check_history [OF assms(1)] assms(2) pushBlinkHistory_length by auto

lemma run_history_bound:
  "runChecks st inputs = Inr st' \<Longrightarrow> length (blinkHistory st) \<le> 10 \<Longrightarrow>
   length (blinkHistory st') \<le> 10"
proof (induction inputs arbitrary: st)
  case Nil
  then show ?case by simp
next
  case (Cons a inputs)
  obtain lmo now where a: "a = (lmo, now)" by (cases a)
  from Cons.prems(1) obtain mid where
    m: "checkLivenessAction st lmo now = Inr mid" and r: "runChecks mid inputs = Inr st'"
    by (auto simp: a split: sum.splits)
  show ?case using Cons.IH [OF r check_history_bound [OF m Cons.prems(2)]] .
qed

lemma check_timed_checks_early:
  "checkLivenessAction timed_checks (Some []) 1200 = Inr timed_checks"
  by (simp add: checkLivenessAction_def timed_checks_def initial_checks_def)

lemma check_timed_checks_due:
  "checkLivenessAction timed_checks (Some lms) 1500 = Inr blink_checks"
  by (simp add: checkLivenessAction_def timed_checks_def blink_checks_def initial_checks_def)

lemma check_initial_checks:
  "checkLivenessAction initial_checks (Some lms) 1000 = Inr timed_checks"
  by (simp add: checkLivenessAction_def timed_checks_def initial_checks_def)

text \<open>
  C3. In a session, that is from the initial state or from a reset, every invocation
  of \<^verbatim>\<open>checkLivenessAction\<close> keeps the stage or moves it to the next one in the
  order face_detection, blink, head_turn, smile, complete; later invocations never
  bring it back; the progress is one of 0, 25, 50, 75 and 100 and never decreases.
\<close>

theorem sequencer_forward_only:
  assumes start: "start = initial_checks \<or> start = resetChecks st0"
    and before: "runChecks start before = Inr st"
    and step: "checkLivenessAction st lmo currentTime = Inr st'"
    and after: "runChecks st' after = Inr st''"
  shows "(currentAction st' = currentAction st
            \<or> stageIndex (currentAction st') = Suc (stageIndex (currentAction st)))
       \<and> stageIndex (currentAction st') \<le> stageIndex (currentAction st'')
       \<and> actionProgress st \<in> {0, 25, 50, 75, 100}
       \<and> actionProgress st = 25 * stageIndex (currentAction st)
       \<and> actionProgress st \<le> actionProgress st'
       \<and> actionProgress st' \<le> actionProgress st''"
proof -
  have i0: "progressMatchesStage start"
    using start by (auto simp: progressMatchesStage_def initial_checks_def resetChecks_def)
  have i1: "progressMatchesStage st" using run_inv [OF before i0] .
  have i2: "progressMatchesStage st'" using check_inv [OF step i1] .
  have i3: "progressMatchesStage st''" using run_inv [OF after i2] .
  have s: "currentAction st' = currentAction st
            \<or> stageIndex (currentAction st') = Suc (stageIndex (currentAction st))"
    using check_step [OF step] by auto
  have m: "stageIndex (currentAction st') \<le> stageIndex (currentAction st'')"
    using run_mono [OF after] .
  have v: "actionProgress st \<in> {0, 25, 50, 75, 100}"
    using stage_progress_values [OF i1] .
  have e: "actionProgress st = 25 * stageIndex (currentAction st)"
    using i1 by (simp add: progressMatchesStage_def)
  have p1: "actionProgress st \<le> actionProgress st'"
    using s i1 i2 by (auto simp: progressMatchesStage_def)
  have p2: "actionProgress st' \<le> actionProgress st''"
    using m i2 i3 by (simp add: progressMatchesStage_def)
  show ?thesis using s m v e p1 p2 by blast
qed

theorem sequencer_forward_only_witness:
  "runChecks initial_checks [(Some [], 1000)] = Inr timed_checks
   \<and> checkLivenessAction timed_checks (Some []) 1500 = Inr blink_checks
   \<and> runChecks blink_checks [(None, 1600)] = Inr blink_checks
   \<and> currentAction timed_checks = face_detection \<and> currentAction blink_checks = blink
   \<and> actionProgress timed_checks = 0 \<and> actionProgress blink_checks = 25"
proof -
  have b: "runChecks initial_checks [(Some [], 1000)] = Inr timed_checks"
    by (simp add: check_initial_checks)
  have s: "checkLivenessAction timed_checks (Some []) 1500 = Inr blink_checks"
    by (rule check_timed_checks_due)
  have a: "runChecks blink_checks [(None, 1600)] = Inr blink_checks"
    by (simp add: check_None)
  from sequencer_forward_only [OF disjI1 [OF refl] b s a] b s a
  show ?thesis by (simp add: timed_checks_def blink_checks_def initial_checks_def)
qed

text \<open>
  C4. An invocation made less than 500 ms after \<open>actionStartTime\<close> returns normally
  and leaves the stage, the progress, the three detection flags and the blink history
  as they were. Conversely an invocation that changes the stage finds the timer set
  at least 500 ms earlier, and it restarts the timer at the current time unless the
  stage reached is the last one.
\<close>

theorem dwell_time_guard:
  "(actionStartTime st = Some t0 \<and> currentTime - t0 < 500 \<longrightarrow>
      (\<exists>st'. checkLivenessAction st lmo currentTime = Inr st'
         \<and> currentAction st' = currentAction st
         \<and> actionProgress st' = actionProgress st
         \<and> blinkDetected st' = blinkDetected st
         \<and> headTurnDetected st' = headTurnDetected st
         \<and> smileDetected st' = smileDetected st
         \<and> blinkHistory st' = blinkHistory st))
   \<and> (checkLivenessAction st lmo currentTime = Inr st2
        \<and> currentAction st2 \<noteq> currentAction st \<longrightarrow>
      (\<exists>t. actionStartTime st = Some t \<and> 500 \<le> currentTime - t)
        \<and> (currentAction st2 \<noteq> complete \<longrightarrow> actionStartTime st2 = Some currentTime))"
proof (intro conjI impI)
  assume h: "actionStartTime st = Some t0 \<and> currentTime - t0 < 500"
  from check_hold [of st t0 currentTime lmo] h
  show "\<exists>st'. checkLivenessAction st lmo currentTime = Inr st'
         \<and> currentAction st' = currentAction st
         \<and> actionProgress st' = actionProgress st
         \<and> blinkDetected st' = blinkDetected st
         \<and> headTurnDetected st' = headTurnDetected st
         \<and> smileDetected st' = smileDetected st
         \<and> blinkHistory st' = blinkHistory st"
    by auto
next
  assume h: "checkLivenessAction st lmo currentTime = Inr st2
        \<and> currentAction st2 \<noteq> currentAction st"
  from check_cases [of st lmo currentTime st2] h
  show "\<exists>t. actionStartTime st = Some t \<and> 500 \<le> currentTime - t" by auto
next
  assume h: "checkLivenessAction st lmo currentTime = Inr st2
        \<and> currentAction st2 \<noteq> currentAction st"
  assume "currentAction st2 \<noteq> complete"
  with check_cases [of st lmo currentTime st2] h
  show "actionStartTime st2 = Some currentTime" by auto
qed

theorem dwell_time_guard_witness:
  "actionStartTime timed_checks = Some 1000 \<and> (1200 :: int) - 1000 < 500
   \<and> checkLivenessAction timed_checks (Some []) 1200 = Inr timed_checks
   \<and> checkLivenessAction timed_checks (Some []) 1500 = Inr blink_checks
   \<and> currentAction blink_checks \<noteq> currentAction timed_checks
   \<and> 500 \<le> (1500 :: int) - 1000
   \<and> actionStartTime blink_checks = Some 1500"
  using dwell_time_guard [of timed_checks 1000 1200 "Some []" timed_checks]
    dwell_time_guard [of timed_checks 1000 1500 "Some []" blink_checks]
    check_timed_checks_early check_timed_checks_due [of "[]"]
  by (simp add: timed_checks_def blink_checks_def initial_checks_def)

lemma js_add_sum:
  "foldl js_add acc xs =
     (if NaN \<in> set (acc # xs) \<or> (PosInf \<in> set (acc # xs) \<and> NegInf \<in> set (acc # xs)) then NaN
      else if PosInf \<in> set (acc # xs) then PosInf
      else if NegInf \<in> set (acc # xs) then NegInf
      else Fin (sum_list (map finiteValue (acc # xs))))"
proof (induction xs arbitrary: acc)
  case Nil
  then show ?case by (cases acc) simp_all
next
  case (Cons x xs)
  show ?case
    unfolding foldl_Cons Cons.IH [of "js_add acc x"]
    by (cases acc; cases x) auto
qed

lemma historyMean_is_spec:
  assumes "entries \<noteq> []"
  shows "historyMean entries = retainedMean_spec entries"
proof -
  have n: "0 < real (length entries)" using assms by simp
  show ?thesis
    unfolding historyMean_def js_add_sum retainedMean_spec_def
    using n by auto
qed

lemma historyMean_finite:
  assumes "xs \<noteq> []"
  shows "historyMean (map Fin xs) = Fin (sum_list xs / real (length xs))"
proof -
  have f: "map finiteValue (map Fin xs) = xs"
    by (induction xs) simp_all
  have "historyMean (map Fin xs) = retainedMean_spec (map Fin xs)"
    using assms by (simp add: historyMean_is_spec)
  also have "\<dots> = Fin (sum_list xs / real (length xs))"
    unfolding retainedMean_spec_def f by auto
  finally show ?thesis .
qed

lemma eyeAspectRatio_spec_finite:
  "distance (lms ! li) (lms ! ri) \<noteq> 0 \<Longrightarrow>
   eyeAspectRatio_spec lms ti bi li ri =
     Fin ((distance (lms ! ti) (lms ! bi) + distance (lms ! ti) (lms ! bi))
          / (2 * distance (lms ! li) (lms ! ri)))"
  by (simp add: eyeAspectRatio_spec_def)

text \<open>
  C6. On landmarks that hold the eight eye points, \<^verbatim>\<open>detectBlink\<close> takes for each
  eye the two vertical distances over twice the horizontal distance, halves the sum of
  the two eyes, appends the result to the history and drops the oldest entry when ten
  were already kept, and answers true exactly when the mean of the entries then kept
  is below 0.25. That mean is the arithmetic mean of all the kept entries: for finite
  entries their sum over their number, whatever their number. A history of at most
  ten entries stays so, in one call and along a whole session. For the kept entries
  0.30, 0.28, 0.10, 0.08, 0.29 the mean is 0.21 and the answer is true.
\<close>

theorem blink_detector:
  fixes lms :: landmarks and history :: "jsnum list"
  defines "avgEAR \<equiv> js_div (js_add (eyeAspectRatio_spec lms 159 145 33 133)
                                    (eyeAspectRatio_spec lms 386 374 362 263)) (Fin 2)"
  defines "retained \<equiv>
             (if length history < 10 then history @ [avgEAR] else tl history @ [avgEAR])"
  assumes inrange: "386 < length lms"
  shows "detectBlink history (Some lms) = Inr (js_lt (historyMean retained) (Fin 0.25), retained)
       \<and> (length history \<le> 10 \<longrightarrow> length retained \<le> 10)
       \<and> (retained = [Fin 0.30, Fin 0.28, Fin 0.10, Fin 0.08, Fin 0.29] \<longrightarrow>
            historyMean retained = Fin 0.21 \<and> js_lt (historyMean retained) (Fin 0.25))
       \<and> (runChecks (resetChecks st0) inputs = Inr st \<longrightarrow> length (blinkHistory st) \<le> 10)
       \<and> detectBlink history (Some lms)
           = Inr (js_lt (retainedMean_spec retained) (Fin 0.25), retained)
       \<and> (retained = map Fin xs \<longrightarrow>
            detectBlink history (Some lms)
              = Inr (sum_list xs / real (length xs) < 0.25, map Fin xs))
       \<and> (distance (lms ! 33) (lms ! 133) \<noteq> 0 \<and> distance (lms ! 362) (lms ! 263) \<noteq> 0 \<longrightarrow>
            avgEAR =
              Fin (((distance (lms ! 159) (lms ! 145) + distance (lms ! 159) (lms ! 145))
                      / (2 * distance (lms ! 33) (lms ! 133))
                    + (distance (lms ! 386) (lms ! 374) + distance (lms ! 386) (lms ! 374))
                      / (2 * distance (lms ! 362) (lms ! 263))) / 2))"
proof -
  have l: "calculateEyeAspectRatio lms LEFT_EYE_TOP LEFT_EYE_BOTTOM LEFT_EYE_LEFT LEFT_EYE_RIGHT
      = Inr (eyeAspectRatio_spec lms 159 145 33 133)"
    using inrange
    by (simp add: calculateEyeAspectRatio_in_range LEFT_EYE_TOP_def LEFT_EYE_BOTTOM_def
          LEFT_EYE_LEFT_def LEFT_EYE_RIGHT_def)
  have r: "calculateEyeAspectRatio lms RIGHT_EYE_TOP RIGHT_EYE_BOTTOM RIGHT_EYE_LEFT RIGHT_EYE_RIGHT
      = Inr (eyeAspectRatio_spec lms 386 374 362 263)"
    using inrange
    by (simp add: calculateEyeAspectRatio_in_range RIGHT_EYE_TOP_def RIGHT_EYE_BOTTOM_def
          RIGHT_EYE_LEFT_def RIGHT_EYE_RIGHT_def)
  have p: "pushBlinkHistory history avgEAR = retained"
    unfolding retained_def by (cases history) (simp_all add: pushBlinkHistory_eq)
  have d: "detectBlink history (Some lms) = Inr (js_lt (historyMean retained) (Fin 0.25), retained)"
    by (simp add: detectBlink_def l r Let_def p [unfolded avgEAR_def])
  have b: "length history \<le> 10 \<longrightarrow> length retained \<le> 10"
    unfolding retained_def by simp
  have s: "retained = [Fin 0.30, Fin 0.28, Fin 0.10, Fin 0.08, Fin 0.29] \<longrightarrow>
            historyMean retained = Fin 0.21 \<and> js_lt (historyMean retained) (Fin 0.25)"
    by (simp add: historyMean_def)
  have n: "runChecks (resetChecks st0) inputs = Inr st \<longrightarrow> length (blinkHistory st) \<le> 10"
    using run_history_bound [of "resetChecks st0" inputs st] by (simp add: resetChecks_def)
  have ne: "retained \<noteq> []"
    unfolding retained_def by simp
  have m: "detectBlink history (Some lms)
           = Inr (js_lt (retainedMean_spec retained) (Fin 0.25), retained)"
    using d historyMean_is_spec [OF ne] by simp
  have f: "retained = map Fin xs \<longrightarrow>
            detectBlink history (Some lms)
              = Inr (sum_list xs / real (length xs) < 0.25, map Fin xs)"
  proof
    assume e: "retained = map Fin xs"
    with ne have "xs \<noteq> []" by auto
    from historyMean_finite [OF this] d e
    show "detectBlink history (Some lms)
              = Inr (sum_list xs / real (length xs) < 0.25, map Fin xs)"
      by simp
  qed
  have a: "distance (lms ! 33) (lms ! 133) \<noteq> 0 \<and> distance (lms ! 362) (lms ! 263) \<noteq> 0 \<longrightarrow>
            avgEAR =
              Fin (((distance (lms ! 159) (lms ! 145) + distance (lms ! 159) (lms ! 145))
                      / (2 * distance (lms ! 33) (lms ! 133))
                    + (distance (lms ! 386) (lms ! 374) + distance (lms ! 386) (lms ! 374))
                      / (2 * distance (lms ! 362) (lms ! 263))) / 2)"
    unfolding avgEAR_def by (simp add: eyeAspectRatio_spec_finite)
  from d b s n m f a show ?thesis by blast
qed

theorem blink_detector_witness:
  "386 < length blinking_face
   \<and> detectBlink [Fin 0.30, Fin 0.28, Fin 0.10, Fin 0.08] (Some blinking_face)
       = Inr (True, [Fin 0.30, Fin 0.28, Fin 0.10, Fin 0.08, Fin 0.29])
   \<and> runChecks (resetChecks initial_checks)
         [(Some blinking_face, 1000), (Some blinking_face, 1500), (Some blinking_face, 2000)]
       = Inr (blink_checks\<lparr>blinkHistory := [Fin 0.29]\<rparr>)
   \<and> length (blinkHistory (blink_checks\<lparr>blinkHistory := [Fin 0.29]\<rparr>)) \<le> 10
   \<and> distance (blinking_face ! 33) (blinking_face ! 133) \<noteq> 0
   \<and> distance (blinking_face ! 362) (blinking_face ! 263) \<noteq> 0
   \<and> detectBlink (map Fin full_history) (Some blinking_face)
       = Inr (True, map Fin (tl full_history @ [0.29]))
   \<and> sum_list (tl full_history @ [0.29]) / real (length (tl full_history @ [0.29])) = 0.199"
proof -
  have d0: "detectBlink [] (Some blinking_face) = Inr (False, [Fin 0.29])"
    using blink_detector [of blinking_face "[]" initial_checks "[]" initial_checks "[]"]
    by (simp add: blinking_face_length blinking_left blinking_right historyMean_def)
  have r: "runChecks (resetChecks initial_checks)
         [(Some blinking_face, 1000), (Some blinking_face, 1500), (Some blinking_face, 2000)]
       = Inr (blink_checks\<lparr>blinkHistory := [Fin 0.29]\<rparr>)"
    by (simp add: resetChecks_def initial_checks_def checkLivenessAction_def blink_checks_def d0)
  have h: "distance (blinking_face ! 33) (blinking_face ! 133) \<noteq> 0
      \<and> distance (blinking_face ! 362) (blinking_face ! 263) \<noteq> 0"
    by (simp add: blinking_face_def origin_def distance_horizontal)
  have m: "sum_list (tl full_history @ [0.29]) / real (length (tl full_history @ [0.29])) = 0.199"
    by (simp add: full_history_def)
  have k: "detectBlink (map Fin full_history) (Some blinking_face)
       = Inr (True, map Fin (tl full_history @ [0.29]))"
    using blink_detector [of blinking_face "map Fin full_history" initial_checks "[]"
        initial_checks "tl full_history @ [0.29]"]
    by (simp add: blinking_face_length blinking_left blinking_right full_history_def
          historyMean_def)
  from blink_detector [of blinking_face "[Fin 0.30, Fin 0.28, Fin 0.10, Fin 0.08]"
      initial_checks
      "[(Some blinking_face, 1000), (Some blinking_face, 1500), (Some blinking_face, 2000)]"
      "blink_checks\<lparr>blinkHistory := [Fin 0.29]\<rparr>" "[0.30, 0.28, 0.10, 0.08, 0.29]"] r h m k
  show ?thesis
    by (simp add: blinking_face_length blinking_left blinking_right historyMean_def)
qed

end
